theory Spec2Isabelle
  imports Complex_Main "HOL-Library.Word"
begin

unbundle bit_operations_syntax

section \<open>Values of the Python program\<close>

text \<open>
  A Python \<open>str\<close> is a sequence of Unicode code points, so \<open>ord c\<close> is the element
  itself and \<open>len\<close> counts code points.  The literals of the source are ASCII and are
  written with \<open>str\<close>.  Bytes objects are lists of 8-bit words.
\<close>

type_synonym ustr = "nat list"

type_synonym byte = "8 word"

definition str :: "string \<Rightarrow> ustr" where
  "str s = map of_char s"

text \<open>The exceptions that the modelled calls can raise.\<close>

datatype error = ValueError | FileNotFoundError | UnicodeEncodeError

text \<open>
  A floating-point value is a finite number, an infinity or NaN.  The arithmetic that
  computes the samples of the waveform (sines, sums, the division by the peak) is taken
  as exact real arithmetic.  What is modelled is every place where the source leaves the
  finite numbers (\<open>0/0\<close>), every explicit cast (\<open>astype\<close>, \<open>int\<close>), and the rounding of
  the two products whose result is truncated to an integer, where the rounding decides
  the integer: \<open>sample_rate * duration\<close> in binary64 and \<open>audio_data * 32767\<close> in binary32.
  Durations and products are taken within the finite range of binary64.
\<close>

datatype fval = Fin real | PInf | NInf | NaN

text \<open>
  What a run can observe of the process it runs in.  The functions of the source take it
  as an argument, and a library call that consults it is modelled as doing so.
\<close>

record env =
  clock :: nat
  pid :: nat
  os_entropy :: nat

section \<open>The libraries the source calls\<close>

text \<open>
  The source calls \<open>uuid\<close>, \<open>numpy.random\<close> and \<open>wave\<close>; none of them is part of
  the repository.  Their primitives are parameters of the model, collected in one record:
  \<^item> \<open>uuid5_int text\<close> is \<open>uuid.uuid5(uuid.NAMESPACE_DNS, text).int\<close>, a 128-bit number,
    for a text that \<open>uuid5\<close> accepts;
  \<^item> \<open>seeded_generator n\<close> is the state of a \<open>Generator\<close> whose seed sequence is built
    from the number \<open>n\<close>;
  \<^item> \<open>rng_random\<close>, \<open>rng_normal\<close> and \<open>rng_integers n\<close> draw one uniform double of
    \<open>[0, 1)\<close>, one standard normal double and one integer of \<open>[0, n)\<close>, and return the
    advanced generator state;
  \<^item> \<open>round_float64\<close> and \<open>round_float32\<close> round a real to the nearest binary64 and
    binary32 number;
  \<^item> \<open>invalid_int16\<close> is what the platform's float-to-int16 conversion gives for NaN;
  \<^item> \<open>wave_file nchannels sampwidth framerate frames\<close> is the content of the file that
    the \<open>wave\<close> module writes.
\<close>

record 'g lib =
  uuid5_int :: "ustr \<Rightarrow> 128 word"
  seeded_generator :: "nat \<Rightarrow> 'g"
  rng_random :: "'g \<Rightarrow> real \<times> 'g"
  rng_normal :: "'g \<Rightarrow> real \<times> 'g"
  rng_integers :: "nat \<Rightarrow> 'g \<Rightarrow> nat \<times> 'g"
  round_float64 :: "real \<Rightarrow> real"
  round_float32 :: "real \<Rightarrow> real"
  invalid_int16 :: "16 word"
  wave_file :: "nat \<Rightarrow> nat \<Rightarrow> nat \<Rightarrow> byte list \<Rightarrow> byte list"

text \<open>
  \<open>np.random.default_rng(seed)\<close>: with a seed the generator is built from it; without
  one (\<open>None\<close>) numpy takes fresh entropy from the operating system.
\<close>

definition default_rng :: "'g lib \<Rightarrow> env \<Rightarrow> nat option \<Rightarrow> 'g" where
  "default_rng L e seed =
     (case seed of None \<Rightarrow> seeded_generator L (os_entropy e) | Some n \<Rightarrow> seeded_generator L n)"

text \<open>
  \<open>uuid.uuid5(namespace, name)\<close> hashes the UTF-8 encoding of \<open>name\<close>.  A string with a
  surrogate code point has no UTF-8 encoding, and the call raises UnicodeEncodeError.
\<close>

definition is_surrogate :: "nat \<Rightarrow> bool" where
  "is_surrogate c = (55296 \<le> c \<and> c \<le> 57343)"

definition uuid5 :: "'g lib \<Rightarrow> ustr \<Rightarrow> error + 128 word" where
  "uuid5 L name =
     (if list_ex is_surrogate name then Inl UnicodeEncodeError else Inr (uuid5_int L name))"

text \<open>An array draw (\<open>size=n\<close>) is \<open>n\<close> draws in sequence from the same stream.\<close>

fun draws :: "('g \<Rightarrow> 'a \<times> 'g) \<Rightarrow> nat \<Rightarrow> 'g \<Rightarrow> 'a list \<times> 'g" where
  "draws f 0 g = ([], g)"
| "draws f (Suc n) g =
     (case f g of (x, g1) \<Rightarrow> case draws f n g1 of (xs, g2) \<Rightarrow> (x # xs, g2))"

text \<open>\<open>rng.uniform(low, high)\<close>.\<close>

definition uniform :: "'g lib \<Rightarrow> real \<Rightarrow> real \<Rightarrow> 'g \<Rightarrow> real \<times> 'g" where
  "uniform L low high g = (case rng_random L g of (u, g') \<Rightarrow> (low + (high - low) * u, g'))"

text \<open>
  \<open>rng.choice(a)\<close> and \<open>rng.choice(a, size=k)\<close> on a list of strings: numpy raises
  ValueError on an empty population, and otherwise converts the list to an array of
  fixed-width strings and returns the elements of the array at the drawn indices.  An
  element read from such an array has lost its trailing NUL characters.
\<close>

definition array_element :: "ustr \<Rightarrow> ustr" where
  "array_element s = rev (dropWhile (\<lambda>c. c = 0) (rev s))"

definition choice :: "'g lib \<Rightarrow> ustr list \<Rightarrow> 'g \<Rightarrow> error + ustr \<times> 'g" where
  "choice L a g =
     (if a = [] then Inl ValueError
      else case rng_integers L (length a) g of (i, g') \<Rightarrow> Inr (array_element (a ! i), g'))"

definition choice_size :: "'g lib \<Rightarrow> ustr list \<Rightarrow> nat \<Rightarrow> 'g \<Rightarrow> error + ustr list \<times> 'g" where
  "choice_size L a k g =
     (if a = [] then Inl ValueError
      else case draws (rng_integers L (length a)) k g of
             (ix, g') \<Rightarrow> Inr (map (\<lambda>i. array_element (a ! i)) ix, g'))"

text \<open>
  \<open>np.linspace(start, stop, num, endpoint=False)\<close>: \<open>num\<close> points with step
  \<open>(stop - start) / num\<close>.  A negative \<open>num\<close> raises ValueError.
\<close>

definition linspace :: "real \<Rightarrow> real \<Rightarrow> int \<Rightarrow> error + real list" where
  "linspace start stop num =
     (if num < 0 then Inl ValueError
      else Inr (map (\<lambda>i. start + real i * ((stop - start) / real_of_int num)) [0..<nat num]))"

text \<open>\<open>np.max\<close> of an array: an empty array has no maximum and raises ValueError.\<close>

definition np_max :: "real list \<Rightarrow> error + real" where
  "np_max xs = (case xs of [] \<Rightarrow> Inl ValueError | x # ys \<Rightarrow> Inr (fold max ys x))"

text \<open>
  Division of floats as numpy does it: no exception, \<open>0/0\<close> is NaN and \<open>x/0\<close> is an
  infinity with the sign of \<open>x\<close>.
\<close>

definition true_divide :: "real \<Rightarrow> real \<Rightarrow> fval" where
  "true_divide x m =
     (if m = 0 then (if x = 0 then NaN else if 0 < x then PInf else NInf) else Fin (x / m))"

text \<open>\<open>.astype(np.float32)\<close> on one value.\<close>

definition astype_float32 :: "'g lib \<Rightarrow> fval \<Rightarrow> fval" where
  "astype_float32 L v = (case v of Fin x \<Rightarrow> Fin (round_float32 L x) | _ \<Rightarrow> v)"

text \<open>Python's \<open>int\<close> of a float truncates toward zero.\<close>

definition py_int :: "real \<Rightarrow> int" where
  "py_int x = (if 0 \<le> x then \<lfloor>x\<rfloor> else \<lceil>x\<rceil>)"

text \<open>
  The product of an \<open>int\<close> and a \<open>float\<close> in Python: the integer is converted to binary64,
  and the product of the two binary64 numbers is rounded to binary64.
\<close>

definition float64_of_int :: "'g lib \<Rightarrow> int \<Rightarrow> real" where
  "float64_of_int L n = round_float64 L (real_of_int n)"

definition float64_times :: "'g lib \<Rightarrow> real \<Rightarrow> real \<Rightarrow> real" where
  "float64_times L x y = round_float64 L (x * y)"

section \<open>Strings: \<open>str.split\<close>, \<open>str.join\<close>, \<open>str.replace\<close>\<close>

text \<open>The code points for which \<open>str.isspace\<close> holds, which \<open>split()\<close> separates on.\<close>

definition isspace :: "nat \<Rightarrow> bool" where
  "isspace c = ((9 \<le> c \<and> c \<le> 13) \<or> (28 \<le> c \<and> c \<le> 32) \<or> c = 133 \<or> c = 160 \<or> c = 5760
      \<or> (8192 \<le> c \<and> c \<le> 8202) \<or> c = 8232 \<or> c = 8233 \<or> c = 8239 \<or> c = 8287 \<or> c = 12288)"

text \<open>
  \<open>text.split()\<close>: the maximal runs of non-whitespace, in order.  The first argument is
  the word being read.
\<close>

fun split_ws :: "ustr \<Rightarrow> ustr \<Rightarrow> ustr list" where
  "split_ws cur [] = (if cur = [] then [] else [cur])"
| "split_ws cur (c # cs) =
     (if isspace c then (if cur = [] then split_ws [] cs else cur # split_ws [] cs)
      else split_ws (cur @ [c]) cs)"

definition str_split :: "ustr \<Rightarrow> ustr list" where
  "str_split text = split_ws [] text"

text \<open>\<open>sep.join(xs)\<close>.\<close>

fun str_join :: "ustr \<Rightarrow> ustr list \<Rightarrow> ustr" where
  "str_join sep [] = []"
| "str_join sep [x] = x"
| "str_join sep (x # y # ys) = x @ sep @ str_join sep (y # ys)"

text \<open>
  \<open>s.split(sep)\<close> for a one-character separator: every occurrence separates, and empty
  pieces are kept.  The source does not call it; it states what "space-separated tokens"
  of a fragment are.
\<close>

fun split_sep :: "nat \<Rightarrow> ustr \<Rightarrow> ustr \<Rightarrow> ustr list" where
  "split_sep sep cur [] = [cur]"
| "split_sep sep cur (c # cs) =
     (if c = sep then cur # split_sep sep [] cs else split_sep sep (cur @ [c]) cs)"

definition space_separated_tokens :: "ustr \<Rightarrow> ustr list" where
  "space_separated_tokens s = split_sep 32 [] s"

text \<open>\<open>s.replace(old, new)\<close> for a non-empty \<open>old\<close>: all occurrences, left to right.\<close>

fun replace :: "ustr \<Rightarrow> ustr \<Rightarrow> ustr \<Rightarrow> ustr" where
  "replace old new [] = []"
| "replace old new (c # cs) =
     (if old \<noteq> [] \<and> take (length old) (c # cs) = old
      then new @ replace old new (drop (length old) (c # cs))
      else c # replace old new cs)"

section \<open>generator.py\<close>

text \<open>Line 6: the waveform seed is the low 32 bits of the name-based UUID.\<close>

definition waveform_seed :: "'g lib \<Rightarrow> ustr \<Rightarrow> error + nat" where
  "waveform_seed L text =
     (case uuid5 L text of Inl err \<Rightarrow> Inl err | Inr u \<Rightarrow> Inr (unat (u AND 0xFFFFFFFF)))"

text \<open>Line 8: the number of samples, \<open>int(sample_rate*duration)\<close>.\<close>

definition sample_count :: "'g lib \<Rightarrow> real \<Rightarrow> int \<Rightarrow> int" where
  "sample_count L duration sample_rate =
     py_int (float64_times L (float64_of_int L sample_rate) duration)"

text \<open>
  Lines 11 to 13: the loop over the frequencies.  Each iteration draws one phase and adds
  one sine component to the waveform.
\<close>

fun mix :: "'g lib \<Rightarrow> real list \<Rightarrow> real list \<Rightarrow> real list \<Rightarrow> 'g \<Rightarrow> real list \<times> 'g" where
  "mix L t [] waveform g = (waveform, g)"
| "mix L t (f # fs) waveform g =
     (case uniform L 0 (2 * pi) g of (phase, g') \<Rightarrow>
        mix L t fs (map2 (+) waveform (map (\<lambda>x. sin (2 * pi * f * x + phase)) t)) g')"

text \<open>Lines 6 to 15: the waveform before normalization.\<close>

definition mixed_waveform ::
    "'g lib \<Rightarrow> env \<Rightarrow> ustr \<Rightarrow> real \<Rightarrow> int \<Rightarrow> error + real list" where
  "mixed_waveform L e text duration sample_rate =
     (case waveform_seed L text of
        Inl err \<Rightarrow> Inl err
      | Inr seed \<Rightarrow>
         (let rng = default_rng L e (Some seed)
          in case linspace 0 duration (sample_count L duration sample_rate) of
               Inl err \<Rightarrow> Inl err
             | Inr t \<Rightarrow>
                (case draws (uniform L 100 1200) 5 rng of (freqs, rng1) \<Rightarrow>
                 case mix L t freqs (map (\<lambda>_. 0) t) rng1 of (waveform, rng2) \<Rightarrow>
                 case draws (rng_normal L) (length t) rng2 of (noise, rng3) \<Rightarrow>
                   Inr (map2 (+) waveform (map (\<lambda>z. 0.1 * z) noise)))))"

text \<open>Lines 16 to 18: normalization by the peak, the cast, and the returned pair.\<close>

definition generate_waveform ::
    "'g lib \<Rightarrow> env \<Rightarrow> ustr \<Rightarrow> real \<Rightarrow> int \<Rightarrow> error + fval list \<times> int" where
  "generate_waveform L e text duration sample_rate =
     (case mixed_waveform L e text duration sample_rate of
        Inl err \<Rightarrow> Inl err
      | Inr waveform \<Rightarrow>
         (case np_max (map abs waveform) of
            Inl err \<Rightarrow> Inl err
          | Inr m \<Rightarrow>
             Inr (map (\<lambda>x. astype_float32 L (true_divide x m)) waveform, sample_rate)))"

text \<open>Line 22: the fragment seed is the sum of the code points.\<close>

definition fragment_seed :: "ustr \<Rightarrow> nat" where
  "fragment_seed text = sum_list text"

definition abstract :: "ustr list" where
  "abstract = map str [''veil'', ''echo'', ''rift'', ''pulse'', ''haze'', ''shard'', ''lumen'', ''flux'']"

definition generate_fragment :: "'g lib \<Rightarrow> env \<Rightarrow> ustr \<Rightarrow> error + ustr" where
  "generate_fragment L e text =
     (let words = str_split text;
          seed = fragment_seed text;
          rng = default_rng L e (Some seed)
      in case (if words \<noteq> [] then choice L words rng else Inr (str ''echo'', rng)) of
           Inl err \<Rightarrow> Inl err
         | Inr (cryptic_word, rng1) \<Rightarrow>
            (case choice_size L abstract 3 rng1 of
               Inl err \<Rightarrow> Inl err
             | Inr (fragment_words, rng2) \<Rightarrow>
                Inr (cryptic_word @ str '' '' @ str_join (str '' '') fragment_words)))"

section \<open>The raw PCM bytes: main.py line 16 and play_audio.py line 20\<close>

text \<open>
  A float32 array is the list of the 32-bit patterns of its elements.
  \<open>waveform.tobytes()\<close> writes each pattern as four bytes, least significant first, and
  nothing else.
\<close>

definition float32_bytes :: "32 word \<Rightarrow> byte list" where
  "float32_bytes w = [ucast w, ucast (drop_bit 8 w), ucast (drop_bit 16 w), ucast (drop_bit 24 w)]"

definition tobytes :: "32 word list \<Rightarrow> byte list" where
  "tobytes ws = concat (map float32_bytes ws)"

definition float32_of_bytes :: "byte \<Rightarrow> byte \<Rightarrow> byte \<Rightarrow> byte \<Rightarrow> 32 word" where
  "float32_of_bytes b0 b1 b2 b3 =
     ucast b0 OR push_bit 8 (ucast b1) OR push_bit 16 (ucast b2) OR push_bit 24 (ucast b3)"

fun chunks4 :: "byte list \<Rightarrow> 32 word list" where
  "chunks4 (b0 # b1 # b2 # b3 # bs) = float32_of_bytes b0 b1 b2 b3 # chunks4 bs"
| "chunks4 bs = []"

text \<open>
  \<open>np.frombuffer(data, dtype=np.float32)\<close> raises ValueError when the size of the buffer
  is not a multiple of the element size.
\<close>

definition frombuffer :: "byte list \<Rightarrow> error + 32 word list" where
  "frombuffer bs = (if length bs mod 4 \<noteq> 0 then Inl ValueError else Inr (chunks4 bs))"

text \<open>The value of a binary32 pattern: sign bit, 8 exponent bits, 23 fraction bits.\<close>

definition float32_value :: "32 word \<Rightarrow> fval" where
  "float32_value w =
     (let negative = bit w 31;
          e = unat (drop_bit 23 w AND 0xFF);
          m = unat (w AND 0x7FFFFF);
          sg = (if negative then - 1 else 1 :: real);
          scale = (\<lambda>k :: nat. if 150 \<le> e then real k * 2 ^ (e - 150) else real k / 2 ^ (150 - e))
      in if e = 255 then (if m = 0 then (if negative then NInf else PInf) else NaN)
         else if e = 0 then Fin (sg * (real m / 2 ^ 149))
         else Fin (sg * scale (2 ^ 23 + m)))"

section \<open>play_audio.py\<close>

text \<open>\<open>np.clip(x, lo, hi)\<close>: NaN stays NaN, the infinities go to the bounds.\<close>

definition clip :: "fval \<Rightarrow> real \<Rightarrow> real \<Rightarrow> fval" where
  "clip v lo hi =
     (case v of Fin x \<Rightarrow> Fin (min (max x lo) hi) | PInf \<Rightarrow> Fin hi | NInf \<Rightarrow> Fin (min lo hi)
      | NaN \<Rightarrow> NaN)"

text \<open>
  \<open>audio_data * 32767\<close> on one element: a product of binary32 numbers, rounded to
  binary32.
\<close>

definition times :: "'g lib \<Rightarrow> fval \<Rightarrow> real \<Rightarrow> fval" where
  "times L v k =
     (case v of Fin x \<Rightarrow> Fin (round_float32 L (x * k))
      | PInf \<Rightarrow> (if k = 0 then NaN else if 0 < k then PInf else NInf)
      | NInf \<Rightarrow> (if k = 0 then NaN else if 0 < k then NInf else PInf)
      | NaN \<Rightarrow> NaN)"

text \<open>
  \<open>.astype(np.int16)\<close> on one element: the conversion of C, which drops the fraction.
  What it gives for a value that is not finite depends on the platform.
\<close>

definition astype_int16 :: "'g lib \<Rightarrow> fval \<Rightarrow> 16 word" where
  "astype_int16 L v = (case v of Fin y \<Rightarrow> word_of_int (py_int y) | _ \<Rightarrow> invalid_int16 L)"

text \<open>Lines 23 and 24 on one decoded sample.\<close>

definition to_int16 :: "'g lib \<Rightarrow> 32 word \<Rightarrow> 16 word" where
  "to_int16 L w = astype_int16 L (times L (clip (float32_value w) (- 1) 1) 32767)"

definition int16_bytes :: "16 word \<Rightarrow> byte list" where
  "int16_bytes w = [ucast w, ucast (drop_bit 8 w)]"

text \<open>
  The files are a map from names to contents, and what the functions print is a list of
  lines; a number that a line formats is kept as the number.
\<close>

type_synonym files = "ustr \<rightharpoonup> byte list"

datatype line =
    Converted ustr ustr | Duration real | Samples nat | ErrorConverting error
  | File ustr | Size nat | Format | SampleRate | Channels | ErrorReading error

record outcome =
  returned :: "ustr option"
  files_after :: files
  printed :: "line list"

text \<open>
  Lines 15 to 44.  Every exception raised inside \<open>try\<close> is caught at line 42: the function
  prints it and returns None.  The output file is opened at line 32, after the decoding.
\<close>

definition convert_to_wav :: "'g lib \<Rightarrow> files \<Rightarrow> ustr \<Rightarrow> ustr option \<Rightarrow> outcome" where
  "convert_to_wav L fs raw_file wav_file =
     (case fs raw_file of
        None \<Rightarrow> \<lparr>returned = None, files_after = fs, printed = [ErrorConverting FileNotFoundError]\<rparr>
      | Some data \<Rightarrow>
         (case frombuffer data of
            Inl e \<Rightarrow> \<lparr>returned = None, files_after = fs, printed = [ErrorConverting e]\<rparr>
          | Inr audio_data \<Rightarrow>
             (let audio_int16 = map (to_int16 L) audio_data;
                  wav_name = (case wav_file of None \<Rightarrow> replace (str ''.raw'') (str ''.wav'') raw_file
                              | Some name \<Rightarrow> name);
                  frames = concat (map int16_bytes audio_int16)
              in \<lparr>returned = Some wav_name,
                  files_after = fs(wav_name \<mapsto> wave_file L 1 2 44100 frames),
                  printed = [Converted raw_file wav_name,
                             Duration (real (length audio_data) / 44100),
                             Samples (length audio_data)]\<rparr>)))"

text \<open>Lines 58 to 75.  The function returns nothing and writes no file; it prints.\<close>

definition info :: "files \<Rightarrow> ustr \<Rightarrow> line list" where
  "info fs raw_file =
     (case fs raw_file of
        None \<Rightarrow> [ErrorReading FileNotFoundError]
      | Some data \<Rightarrow>
         (let samples = length data div 4;
              duration = real samples / 44100
          in [File raw_file, Size (length data), Samples samples, Duration duration,
              Format, SampleRate, Channels]))"

section \<open>What the claims assume of the libraries, and what they compare with\<close>

text \<open>
  The contract of \<open>Generator.integers\<close>: a draw from a population of \<open>n > 0\<close> elements is
  an index below \<open>n\<close>.
\<close>

definition integers_in_range :: "'g lib \<Rightarrow> bool" where
  "integers_in_range L = (\<forall>n g. 0 < n \<longrightarrow> fst (rng_integers L n g) < n)"

text \<open>
  The contract of rounding to binary32: it is monotone, and \<open>1\<close> and \<open>- 1\<close> are binary32
  numbers.
\<close>

definition float32_rounding :: "(real \<Rightarrow> real) \<Rightarrow> bool" where
  "float32_rounding f = (mono f \<and> f 1 = 1 \<and> f (- 1) = - 1)"

text \<open>
  Python's \<open>round\<close> of the specification: to the nearest integer, a tie to the even one.
  The source never calls it.
\<close>

definition py_round :: "real \<Rightarrow> int" where
  "py_round x =
     (let f = \<lfloor>x\<rfloor>; r = x - real_of_int f
      in if r < 1 / 2 then f else if 1 / 2 < r then f + 1 else if even f then f else f + 1)"

text \<open>
  Rounding to the nearest number with a significand of \<open>p\<close> bits, a tie to the even
  significand, as binary64 (\<open>p = 53\<close>) and binary32 (\<open>p = 24\<close>) do within their range of
  normal numbers.
\<close>

definition binary_round :: "nat \<Rightarrow> real \<Rightarrow> real" where
  "binary_round p x =
     (if x = 0 then 0
      else let ulp = 2 powr real_of_int (\<lfloor>log 2 \<bar>x\<bar>\<rfloor> - int p + 1)
           in real_of_int (py_round (x / ulp)) * ulp)"

text \<open>
  A library instance on which the functions can be evaluated: the generator state counts
  the draws, every uniform draw is \<open>u\<close>, every normal draw is \<open>z\<close>, an index draw is the
  count modulo the population, the rounding is exact, and the stand-ins for \<open>uuid5\<close> and
  \<open>wave\<close> are the sum of the code points and the bare frames.  It is used at inputs where
  the floating-point products are exact.  The second instance rounds as binary64 and
  binary32 do.
\<close>

definition test_env :: env where
  "test_env = \<lparr>clock = 0, pid = 0, os_entropy = 0\<rparr>"

definition test_lib :: "real \<Rightarrow> real \<Rightarrow> nat lib" where
  "test_lib u z =
     \<lparr>uuid5_int = (\<lambda>text. word_of_nat (sum_list text)),
      seeded_generator = (\<lambda>n. n),
      rng_random = (\<lambda>g. (u, Suc g)),
      rng_normal = (\<lambda>g. (z, Suc g)),
      rng_integers = (\<lambda>n g. (g mod n, Suc g)),
      round_float64 = (\<lambda>x. x),
      round_float32 = (\<lambda>x. x),
      invalid_int16 = 0,
      wave_file = (\<lambda>nchannels sampwidth framerate frames. frames)\<rparr>"

definition ieee_lib :: "real \<Rightarrow> real \<Rightarrow> nat lib" where
  "ieee_lib u z =
     (test_lib u z)\<lparr>round_float64 := binary_round 53, round_float32 := binary_round 24\<rparr>"

section \<open>The codec\<close>

lemma float32_of_bytes_float32_bytes:
  "float32_of_bytes (ucast w) (ucast (drop_bit 8 w)) (ucast (drop_bit 16 w))
     (ucast (drop_bit 24 w)) = w"
  unfolding float32_of_bytes_def
  apply (rule bit_eqI)
  subgoal for n
    by (cases "n < 8"; cases "n < 16"; cases "n < 24") (auto simp add: bit_simps)
  done

lemma chunks4_tobytes: "chunks4 (tobytes ws) = ws"
  by (induction ws) (simp_all add: tobytes_def float32_bytes_def float32_of_bytes_float32_bytes)

lemma length_tobytes: "length (tobytes ws) = 4 * length ws"
  by (induction ws) (simp_all add: tobytes_def float32_bytes_def)

text \<open>
  C3.  Decoding the bytes that encoding produced gives back the buffer: the same number
  of samples and, sample by sample, the same bit pattern, hence the same value.  The
  encoding is four bytes per sample and nothing else.
\<close>

theorem codec_round_trip:
  "frombuffer (tobytes ws) = Inr ws \<and> length (tobytes ws) = 4 * length ws"
  by (simp add: frombuffer_def chunks4_tobytes length_tobytes)

section \<open>Waveform and fragment synthesis\<close>

lemma draws_numeral:
  "draws f (numeral k) g =
     (case f g of (x, g1) \<Rightarrow> case draws f (pred_numeral k) g1 of (xs, g2) \<Rightarrow> (x # xs, g2))"
  by (simp add: numeral_eq_Suc)

lemmas waveform_eval = generate_waveform_def mixed_waveform_def test_lib_def test_env_def
  linspace_def py_int_def draws_numeral uniform_def np_max_def true_divide_def
  astype_float32_def waveform_seed_def uuid5_def is_surrogate_def default_rng_def
  sample_count_def float64_times_def float64_of_int_def str_def

lemmas fragment_eval = generate_fragment_def str_split_def str_def isspace_def
  fragment_seed_def choice_def choice_size_def test_lib_def test_env_def abstract_def
  draws_numeral default_rng_def array_element_def

lemma length_draws: "draws f n g = (xs, g') \<Longrightarrow> length xs = n"
  by (induction n arbitrary: g xs g') (auto split: prod.splits)

lemma length_mix: "length w = length t \<Longrightarrow> length (fst (mix L t fs w g)) = length t"
  by (induction fs arbitrary: w g) (simp_all split: prod.splits)

lemma mixed_waveform_seed:
  assumes "mixed_waveform L e text d r = Inr w"
  shows "\<exists>seed. waveform_seed L text = Inr seed"
  using assms by (cases "waveform_seed L text") (simp_all add: mixed_waveform_def)

lemma mixed_waveform_length:
  assumes "mixed_waveform L e text d r = Inr w"
  shows "length w = nat (sample_count L d r)" and "0 \<le> sample_count L d r"
proof -
  let ?n = "sample_count L d r"
  obtain seed where seed: "waveform_seed L text = Inr seed"
    using mixed_waveform_seed [OF assms] by blast
  define rng where "rng = default_rng L e (Some seed)"
  from assms have nonneg: "\<not> ?n < 0"
    by (auto simp: mixed_waveform_def seed linspace_def Let_def split: if_splits)
  then show "0 \<le> ?n" by simp
  obtain t where t: "linspace 0 d ?n = Inr t" and lt: "length t = nat ?n"
    using nonneg by (simp add: linspace_def)
  obtain freqs rng1 where f: "draws (uniform L 100 1200) 5 rng = (freqs, rng1)"
    by (cases "draws (uniform L 100 1200) 5 rng")
  obtain wf rng2 where m: "mix L t freqs (map (\<lambda>_. 0) t) rng1 = (wf, rng2)"
    by (cases "mix L t freqs (map (\<lambda>_. 0) t) rng1")
  obtain noise rng3 where n: "draws (rng_normal L) (length t) rng2 = (noise, rng3)"
    by (cases "draws (rng_normal L) (length t) rng2")
  have lw: "length wf = length t"
    using length_mix [of "map (\<lambda>_. 0) t" t L freqs rng1] m by simp
  have ln: "length noise = length t"
    using length_draws [OF n] .
  from assms have "length w = min (length wf) (length noise)"
    by (auto simp: mixed_waveform_def seed Let_def rng_def [symmetric] t f m n)
  then show "length w = nat ?n"
    by (simp add: lw ln lt)
qed


lemma np_max_Max:
  assumes "xs \<noteq> []"
  shows "np_max xs = Inr (Max (set xs))"
proof (cases xs)
  case Nil
  with assms show ?thesis by simp
next
  case (Cons x ys)
  then show ?thesis
    using Max.set_eq_fold [of x ys] by (simp add: np_max_def)
qed

text \<open>
  C2, amended.  Whenever waveform synthesis returns, the buffer has exactly
  \<open>int(sample_rate * duration)\<close> samples: the product as line 8 computes it, the sample
  rate converted to binary64 and the binary64 product rounded, then truncated toward
  zero; and the sample rate is returned unchanged.  The length is not the rounded
  product: for duration 1.75 and sample rate 1, where the product is exact, the buffer has
  one sample and the product rounds to 2.
\<close>

theorem buffer_length_truncated:
  assumes "generate_waveform L e text d r = Inr (buf, sr)"
  shows "length buf = nat (py_int (round_float64 L (round_float64 L (real_of_int r) * d)))
         \<and> sr = r"
proof -
  from assms obtain w where w: "mixed_waveform L e text d r = Inr w"
    by (auto simp: generate_waveform_def split: sum.splits)
  with assms have "length buf = length w" and "sr = r"
    by (auto simp: generate_waveform_def split: sum.splits)
  then show ?thesis
    using mixed_waveform_length(1) [OF w]
    by (simp add: sample_count_def float64_times_def float64_of_int_def)
qed

theorem buffer_length_truncated_witness:
  "generate_waveform (test_lib (1 / 4) 0) test_env (str ''a'') (7 / 4) 1 = Inr ([Fin 1], 1)
   \<and> length [Fin 1] = nat (py_int (real_of_int 1 * (7 / 4)))"
proof -
  have h: "generate_waveform (test_lib (1 / 4) 0) test_env (str ''a'') (7 / 4) 1 = Inr ([Fin 1], 1)"
    by (simp add: waveform_eval)
  show ?thesis
    using h buffer_length_truncated [OF h] by (simp add: py_int_def)
qed

theorem buffer_length_rounded_counterexample:
  "generate_waveform (test_lib (1 / 4) 0) test_env (str ''a'') (7 / 4) 1 = Inr ([Fin 1], 1)
   \<and> py_round (real_of_int 1 * (7 / 4)) = 2"
  by (simp add: waveform_eval py_round_def)

lemma generate_waveform_nonempty:
  assumes "mixed_waveform L e text d r = Inr w" and "w \<noteq> []"
  shows "generate_waveform L e text d r =
           Inr (map (\<lambda>x. astype_float32 L (true_divide x (Max (set (map abs w))))) w, r)"
  using assms np_max_Max [of "map abs w"] by (simp add: generate_waveform_def)

text \<open>
  C5, amended.  The source has no guard at line 17.  When the mixed waveform is not empty
  and identically zero, the peak is 0, the division is carried out, and waveform synthesis
  returns, without raising, a buffer of the same length whose every sample is NaN.
\<close>

theorem degenerate_buffer_divides:
  assumes "mixed_waveform L e text d r = Inr w" and "w \<noteq> []" and "\<forall>x\<in>set w. x = 0"
  shows "np_max (map abs w) = Inr 0
         \<and> generate_waveform L e text d r = Inr (replicate (length w) NaN, r)"
proof -
  have abs0: "set (map abs w) = {0}"
    using assms(2,3) by (cases w) auto
  then have peak: "Max (set (map abs w)) = 0"
    by simp
  have "map (\<lambda>x. astype_float32 L (true_divide x 0)) w = replicate (length w) NaN"
    using assms(3) by (simp add: map_replicate_const [symmetric] true_divide_def astype_float32_def cong: map_cong)
  then show ?thesis
    using generate_waveform_nonempty [OF assms(1,2)] np_max_Max [of "map abs w"] assms(2) peak
    by simp
qed

theorem degenerate_buffer_divides_witness:
  "mixed_waveform (test_lib 0 0) test_env (str ''a'') 1 1 = Inr [0]
   \<and> generate_waveform (test_lib 0 0) test_env (str ''a'') 1 1
       = Inr (replicate (length [0 :: real]) NaN, 1)"
proof -
  have h: "mixed_waveform (test_lib 0 0) test_env (str ''a'') 1 1 = Inr [0]"
    by (simp add: waveform_eval)
  show ?thesis
    using h degenerate_buffer_divides [OF h] by simp
qed

theorem degenerate_buffer_unguarded_counterexample:
  "mixed_waveform (test_lib 0 0) test_env (str ''a'') 1 1 = Inr [0]
   \<and> generate_waveform (test_lib 0 0) test_env (str ''a'') 1 1 = Inr ([NaN], 1)"
  by (simp add: waveform_eval)





text \<open>
  C7.  When the mixed waveform has a sample that is not zero, waveform synthesis returns a
  buffer of finite float32 samples, every one of absolute value at most 1, and one of
  absolute value exactly 1: the maximum absolute value of the buffer is 1, and every
  sample lies in \<open>[-1, 1]\<close>.  The cast to float32 keeps this, being monotone and exact
  at \<open>1\<close> and \<open>- 1\<close>.
\<close>

theorem normalized_peak:
  assumes "mixed_waveform L e text d r = Inr w" and "\<exists>x\<in>set w. x \<noteq> 0"
    and "float32_rounding (round_float32 L)"
  shows "\<exists>buf. generate_waveform L e text d r = Inr (buf, r)
           \<and> length buf = length w
           \<and> (\<forall>v\<in>set buf. \<exists>y. v = Fin y \<and> \<bar>y\<bar> \<le> 1)
           \<and> (\<exists>v\<in>set buf. \<exists>y. v = Fin y \<and> \<bar>y\<bar> = 1)"
proof -
  let ?f = "round_float32 L"
  define m where "m = Max (set (map abs w))"
  define buf where "buf = map (\<lambda>x. astype_float32 L (true_divide x m)) w"
  from assms(2) have ne: "w \<noteq> []" by auto
  have le: "\<bar>x\<bar> \<le> m" if "x \<in> set w" for x
    unfolding m_def using that by (intro Max_ge) auto
  from assms(2) obtain x0 where "x0 \<in> set w" and "x0 \<noteq> 0" by blast
  then have "0 < \<bar>x0\<bar>" and "\<bar>x0\<bar> \<le> m"
    using le [of x0] by simp_all
  then have pos: "0 < m"
    by linarith
  have mono: "?f a \<le> ?f b" if "a \<le> b" for a b
    using assms(3) that by (simp add: float32_rounding_def mono_def)
  have one: "?f 1 = 1" and mone: "?f (- 1) = - 1"
    using assms(3) by (simp_all add: float32_rounding_def)
  have conv: "astype_float32 L (true_divide x m) = Fin (?f (x / m))" for x
    using pos by (simp add: true_divide_def astype_float32_def)
  have bound: "\<bar>?f (x / m)\<bar> \<le> 1" if "x \<in> set w" for x
  proof -
    have "- m \<le> x" and "x \<le> m"
      using le [OF that] by linarith+
    then have "- 1 \<le> x / m" and "x / m \<le> 1"
      using pos by (simp_all add: pos_le_divide_eq pos_divide_le_eq)
    then have "?f (- 1) \<le> ?f (x / m)" and "?f (x / m) \<le> ?f 1"
      by (auto intro: mono)
    then have "- 1 \<le> ?f (x / m)" and "?f (x / m) \<le> 1"
      by (simp_all add: one mone)
    then show ?thesis
      by linarith
  qed
  have "m \<in> set (map abs w)"
    unfolding m_def using ne by (intro Max_in) auto
  then obtain xp where xp: "xp \<in> set w" and peak: "\<bar>xp\<bar> = m"
    by auto
  have "xp / m = 1 \<or> xp / m = - 1"
    using peak pos by (cases "0 \<le> xp") (simp_all add: field_simps)
  then have attained: "\<bar>?f (xp / m)\<bar> = 1"
    by (auto simp: one mone)
  have 1: "generate_waveform L e text d r = Inr (buf, r)"
    unfolding buf_def m_def using generate_waveform_nonempty [OF assms(1) ne] .
  have 2: "\<forall>v\<in>set buf. \<exists>y. v = Fin y \<and> \<bar>y\<bar> \<le> 1"
    using bound by (auto simp: buf_def conv)
  have 3: "\<exists>v\<in>set buf. \<exists>y. v = Fin y \<and> \<bar>y\<bar> = 1"
    using xp attained by (auto simp: buf_def conv)
  have 4: "length buf = length w"
    by (simp add: buf_def)
  show ?thesis
    using 1 2 3 4 by blast
qed

theorem normalized_peak_witness:
  "mixed_waveform (test_lib (1 / 4) 0) test_env (str ''a'') 1 1 = Inr [5]
   \<and> (\<exists>x\<in>set [5 :: real]. x \<noteq> 0)
   \<and> float32_rounding (round_float32 (test_lib (1 / 4) 0))
   \<and> generate_waveform (test_lib (1 / 4) 0) test_env (str ''a'') 1 1 = Inr ([Fin 1], 1)"
proof -
  have h1: "mixed_waveform (test_lib (1 / 4) 0) test_env (str ''a'') 1 1 = Inr [5]"
    by (simp add: waveform_eval)
  have h2: "\<exists>x\<in>set [5 :: real]. x \<noteq> 0"
    by simp
  have h3: "float32_rounding (round_float32 (test_lib (1 / 4) 0))"
    by (simp add: float32_rounding_def test_lib_def mono_def)
  show ?thesis
    using h1 h2 h3 normalized_peak [OF h1 h2 h3] by (simp add: waveform_eval)
qed

lemma unseeded_generator_reads_entropy:
  "default_rng (test_lib u z) \<lparr>clock = c, pid = p, os_entropy = 0\<rparr> None
     \<noteq> default_rng (test_lib u z) \<lparr>clock = c, pid = p, os_entropy = 1\<rparr> None"
  by (simp add: default_rng_def test_lib_def)

text \<open>
  C1.  A run takes place in an environment (clock, process id, entropy of the operating
  system), which a library call can consult: \<open>default_rng\<close> without a seed does, as the
  lemma above shows.  Both functions call it with a seed computed from the text, and
  consult the environment nowhere else.  So two runs in any two environments that agree
  on the waveform seed (and on the duration and the sample rate), respectively on the
  fragment seed and the words, in particular two runs on the same string, return the same
  buffer, sample by sample, and the same fragment (or raise the same error).
\<close>

theorem synthesis_independent_of_environment:
  "(waveform_seed L s = waveform_seed L s' \<longrightarrow>
      generate_waveform L e s d r = generate_waveform L e' s' d r)
   \<and> (fragment_seed s = fragment_seed s' \<and> str_split s = str_split s' \<longrightarrow>
      generate_fragment L e s = generate_fragment L e' s')"
proof (intro conjI impI)
  assume seed: "waveform_seed L s = waveform_seed L s'"
  have "mixed_waveform L e s d r = mixed_waveform L e' s' d r"
    by (simp add: mixed_waveform_def seed default_rng_def cong: sum.case_cong)
  then show "generate_waveform L e s d r = generate_waveform L e' s' d r"
    by (simp add: generate_waveform_def)
next
  assume "fragment_seed s = fragment_seed s' \<and> str_split s = str_split s'"
  then show "generate_fragment L e s = generate_fragment L e' s'"
    by (simp add: generate_fragment_def default_rng_def)
qed

theorem synthesis_independent_of_environment_witness:
  "waveform_seed (test_lib 0 0) [97, 32, 9, 98] = waveform_seed (test_lib 0 0) [97, 9, 32, 98]
   \<and> generate_waveform (test_lib 0 0) test_env [97, 32, 9, 98] 1 1
       = generate_waveform (test_lib 0 0) \<lparr>clock = 1, pid = 2, os_entropy = 3\<rparr> [97, 9, 32, 98] 1 1
   \<and> fragment_seed [97, 32, 9, 98] = fragment_seed [97, 9, 32, 98]
   \<and> str_split [97, 32, 9, 98] = str_split [97, 9, 32, 98]
   \<and> generate_fragment (test_lib 0 0) test_env [97, 32, 9, 98]
       = generate_fragment (test_lib 0 0) \<lparr>clock = 1, pid = 2, os_entropy = 3\<rparr> [97, 9, 32, 98]"
proof -
  have h1: "waveform_seed (test_lib 0 0) [97, 32, 9, 98] = waveform_seed (test_lib 0 0) [97, 9, 32, 98]"
    by (simp add: waveform_seed_def uuid5_def is_surrogate_def test_lib_def)
  have h2: "fragment_seed [97, 32, 9, 98] = fragment_seed [97, 9, 32, 98]
            \<and> str_split [97, 32, 9, 98] = str_split [97, 9, 32, 98]"
    by (simp add: fragment_seed_def str_split_def isspace_def)
  show ?thesis
    using h1 h2
      synthesis_independent_of_environment [of "test_lib 0 0" "[97, 32, 9, 98]" "[97, 9, 32, 98]"
        test_env 1 1 "\<lparr>clock = 1, pid = 2, os_entropy = 3\<rparr>"]
    by simp
qed

section \<open>The structure of a fragment\<close>

lemma split_ws_words:
  "\<forall>c\<in>set cur. \<not> isspace c \<Longrightarrow>
     \<forall>w\<in>set (split_ws cur s). w \<noteq> [] \<and> (\<forall>c\<in>set w. \<not> isspace c)"
proof (induction s arbitrary: cur)
  case Nil
  then show ?case by simp
next
  case (Cons c cs)
  have empty: "\<forall>w\<in>set (split_ws [] cs). w \<noteq> [] \<and> (\<forall>c\<in>set w. \<not> isspace c)"
    by (rule Cons.IH) simp
  show ?case
  proof (cases "isspace c")
    case True
    show ?thesis
    proof (cases "cur = []")
      case True
      with \<open>isspace c\<close> have "split_ws cur (c # cs) = split_ws [] cs"
        by simp
      then show ?thesis
        using empty by simp
    next
      case False
      with \<open>isspace c\<close> have "split_ws cur (c # cs) = cur # split_ws [] cs"
        by simp
      then show ?thesis
        using empty Cons.prems False by simp
    qed
  next
    case False
    then have "\<forall>x\<in>set (cur @ [c]). \<not> isspace x"
      using Cons.prems by simp
    then have "\<forall>w\<in>set (split_ws (cur @ [c]) cs). w \<noteq> [] \<and> (\<forall>c\<in>set w. \<not> isspace c)"
      by (rule Cons.IH)
    moreover have "split_ws cur (c # cs) = split_ws (cur @ [c]) cs"
      using False by simp
    ultimately show ?thesis
      by simp
  qed
qed

lemma str_split_words:
  assumes "w \<in> set (str_split text)"
  shows "w \<noteq> [] \<and> (\<forall>c\<in>set w. \<not> isspace c)"
proof -
  from assms have "w \<in> set (split_ws [] text)"
    by (simp only: str_split_def)
  moreover have "\<forall>w\<in>set (split_ws [] text). w \<noteq> [] \<and> (\<forall>c\<in>set w. \<not> isspace c)"
    by (rule split_ws_words) simp
  ultimately show ?thesis
    by blast
qed

lemma abstract_words_all:
  "\<forall>a\<in>set abstract. a \<noteq> [] \<and> (\<forall>c\<in>set a. \<not> isspace c)"
  by (simp add: abstract_def str_def isspace_def)

lemma abstract_words:
  "a \<in> set abstract \<Longrightarrow> a \<noteq> [] \<and> (\<forall>c\<in>set a. \<not> isspace c)"
  using abstract_words_all by blast

lemma draws_integers_in_range:
  "integers_in_range L \<Longrightarrow> 0 < n \<Longrightarrow> draws (rng_integers L n) k g = (ix, g') \<Longrightarrow>
     length ix = k \<and> (\<forall>i\<in>set ix. i < n)"
proof (induction k arbitrary: g ix g')
  case 0
  then show ?case by simp
next
  case (Suc k)
  obtain i g1 where i: "rng_integers L n g = (i, g1)"
    by (cases "rng_integers L n g")
  obtain rest g2 where rest: "draws (rng_integers L n) k g1 = (rest, g2)"
    by (cases "draws (rng_integers L n) k g1")
  have "fst (rng_integers L n g) < n"
    using Suc.prems(1,2) by (simp add: integers_in_range_def)
  then have "i < n"
    by (simp add: i)
  moreover have "length rest = k \<and> (\<forall>i\<in>set rest. i < n)"
    using Suc.IH [OF Suc.prems(1,2) rest] .
  moreover have "ix = i # rest"
    using Suc.prems(3) i rest by simp
  ultimately show ?case by simp
qed

lemma array_element_subset: "set (array_element s) \<subseteq> set s"
  by (auto simp: array_element_def dest: set_dropWhileD)

lemma array_element_keeps:
  assumes "s \<noteq> []" and "last s \<noteq> 0"
  shows "array_element s = s"
proof -
  have "rev s \<noteq> []" and "hd (rev s) \<noteq> 0"
    using assms by (simp_all add: hd_rev)
  then have "dropWhile (\<lambda>c. c = 0) (rev s) = rev s"
    by (cases "rev s") simp_all
  then show ?thesis
    by (simp add: array_element_def)
qed

lemma array_element_abstract_all: "\<forall>a\<in>set abstract. array_element a = a"
  by (simp add: abstract_def str_def array_element_def)

lemma array_element_abstract: "a \<in> set abstract \<Longrightarrow> array_element a = a"
  using array_element_abstract_all by blast

lemma choice_member:
  assumes "integers_in_range L" and "a \<noteq> []"
  shows "\<exists>x g'. choice L a g = Inr (array_element x, g') \<and> x \<in> set a"
proof -
  obtain i g1 where i: "rng_integers L (length a) g = (i, g1)"
    by (cases "rng_integers L (length a) g")
  have "fst (rng_integers L (length a) g) < length a"
    using assms by (simp add: integers_in_range_def)
  then have "i < length a"
    by (simp add: i)
  then have "a ! i \<in> set a"
    by simp
  moreover have "choice L a g = Inr (array_element (a ! i), g1)"
    using assms(2) i by (simp add: choice_def)
  ultimately show ?thesis
    by blast
qed

lemma choice_size_3:
  assumes "integers_in_range L" and "a \<noteq> []"
  shows "\<exists>x y z g'. choice_size L a 3 g
            = Inr ([array_element x, array_element y, array_element z], g')
          \<and> x \<in> set a \<and> y \<in> set a \<and> z \<in> set a"
proof -
  obtain ix g1 where ix: "draws (rng_integers L (length a)) 3 g = (ix, g1)"
    by (cases "draws (rng_integers L (length a)) 3 g")
  have "length ix = 3 \<and> (\<forall>i\<in>set ix. i < length a)"
    using draws_integers_in_range [OF assms(1) _ ix] assms(2) by simp
  then obtain i j k where ijk: "ix = [i, j, k]" and "i < length a" "j < length a" "k < length a"
    by (cases ix; cases "tl ix"; cases "tl (tl ix)") auto
  then have "a ! i \<in> set a" "a ! j \<in> set a" "a ! k \<in> set a"
    by simp_all
  moreover have "choice_size L a 3 g
      = Inr ([array_element (a ! i), array_element (a ! j), array_element (a ! k)], g1)"
    using assms(2) ix ijk by (simp add: choice_size_def)
  ultimately show ?thesis
    by blast
qed

lemma split_sep_append:
  "sep \<notin> set w \<Longrightarrow> split_sep sep cur (w @ rest) = split_sep sep (cur @ w) rest"
  by (induction w arbitrary: cur) auto

lemma split_sep_four:
  assumes "sep \<notin> set w" "sep \<notin> set a" "sep \<notin> set b" "sep \<notin> set c"
  shows "split_sep sep [] (w @ [sep] @ a @ [sep] @ b @ [sep] @ c) = [w, a, b, c]"
  using assms split_sep_append [of sep c "[]" "[]"]
  by (simp add: split_sep_append)

lemma split_ws_append:
  "\<forall>c\<in>set w. \<not> isspace c \<Longrightarrow> split_ws cur (w @ rest) = split_ws (cur @ w) rest"
  by (induction w arbitrary: cur) auto

lemma split_ws_four:
  assumes "w \<noteq> []" "a \<noteq> []" "b \<noteq> []" "c \<noteq> []"
    and "\<forall>x\<in>set w. \<not> isspace x" "\<forall>x\<in>set a. \<not> isspace x"
    and "\<forall>x\<in>set b. \<not> isspace x" "\<forall>x\<in>set c. \<not> isspace x"
  shows "split_ws [] (w @ [32] @ a @ [32] @ b @ [32] @ c) = [w, a, b, c]"
proof -
  have sp: "isspace 32" by (simp add: isspace_def)
  show ?thesis
    using assms split_ws_append [of c "[]" "[]"] sp
    by (simp add: split_ws_append)
qed

lemma isspace_32: "isspace 32"
  by (simp add: isspace_def)

lemma fragment_space_tokens:
  assumes "\<forall>x\<in>set w. \<not> isspace x" "\<forall>x\<in>set a. \<not> isspace x"
    and "\<forall>x\<in>set b. \<not> isspace x" "\<forall>x\<in>set c. \<not> isspace x"
  shows "space_separated_tokens (w @ [32] @ a @ [32] @ b @ [32] @ c) = [w, a, b, c]"
proof -
  have "32 \<notin> set w" "32 \<notin> set a" "32 \<notin> set b" "32 \<notin> set c"
    using assms isspace_32 by blast+
  then show ?thesis
    unfolding space_separated_tokens_def by (rule split_sep_four)
qed

lemma fragment_whitespace_tokens:
  assumes "w \<noteq> []" "a \<noteq> []" "b \<noteq> []" "c \<noteq> []"
    and "\<forall>x\<in>set w. \<not> isspace x" "\<forall>x\<in>set a. \<not> isspace x"
    and "\<forall>x\<in>set b. \<not> isspace x" "\<forall>x\<in>set c. \<not> isspace x"
  shows "str_split (w @ [32] @ a @ [32] @ b @ [32] @ c) = [w, a, b, c]"
  unfolding str_split_def by (rule split_ws_four [OF assms])

text \<open>
  What the fragment is for every input string: the chosen word as it comes back from the
  array, a space, and three vocabulary tokens joined by spaces.  The chosen word is one of
  the words of \<open>text.split()\<close>, at the index that the generator draws from the range of
  the word list, or \<open>echo\<close> when there is no word.  The fragment is not empty and splits
  at its spaces into exactly four tokens.  When the chosen word does not end with a NUL
  character, the first token is that word, and the fragment also splits at whitespace
  into the same four tokens.
\<close>

lemma fragment_structure:
  assumes "integers_in_range L"
  shows "\<exists>fragment w a b c.
           generate_fragment L e text = Inr fragment
           \<and> fragment = array_element w @ str '' '' @ a @ str '' '' @ b @ str '' '' @ c
           \<and> fragment \<noteq> []
           \<and> (if str_split text = [] then w = str ''echo'' else w \<in> set (str_split text))
           \<and> a \<in> set abstract \<and> b \<in> set abstract \<and> c \<in> set abstract
           \<and> length abstract = 8
           \<and> space_separated_tokens fragment = [array_element w, a, b, c]
           \<and> (last w \<noteq> 0 \<longrightarrow> array_element w = w \<and> str_split fragment = [w, a, b, c])"
proof -
  define rng where "rng = default_rng L e (Some (fragment_seed text))"
  have sp: "str '' '' = [32]"
    by (simp add: str_def)
  have abstract_ne: "abstract \<noteq> []"
    by (simp add: abstract_def)
  obtain w rng1 where
    first: "(if str_split text \<noteq> [] then choice L (str_split text) rng else Inr (str ''echo'', rng))
              = Inr (array_element w, rng1)"
    and w: "if str_split text = [] then w = str ''echo'' else w \<in> set (str_split text)"
  proof (cases "str_split text = []")
    case True
    have "array_element (str ''echo'') = str ''echo''"
      by (simp add: array_element_def str_def)
    then show ?thesis
      using that [of "str ''echo''" rng] True by simp
  next
    case False
    then obtain x g' where "choice L (str_split text) rng = Inr (array_element x, g')"
      and "x \<in> set (str_split text)"
      using choice_member [OF assms, of "str_split text" rng] by blast
    then show ?thesis
      using that [of x g'] False by simp
  qed
  have w_ok: "w \<noteq> [] \<and> (\<forall>x\<in>set w. \<not> isspace x)"
  proof (cases "str_split text = []")
    case True
    then have "w = str ''echo''"
      using w by simp
    then show ?thesis
      by (simp add: str_def isspace_def)
  next
    case False
    then have "w \<in> set (str_split text)"
      using w by simp
    then show ?thesis
      by (rule str_split_words)
  qed
  have aw_ok: "\<forall>x\<in>set (array_element w). \<not> isspace x"
    using w_ok array_element_subset [of w] by blast
  obtain a b c rng2 where
    rest: "choice_size L abstract 3 rng1 = Inr ([a, b, c], rng2)"
    and abc: "a \<in> set abstract" "b \<in> set abstract" "c \<in> set abstract"
  proof -
    obtain x y z g' where
      "choice_size L abstract 3 rng1 = Inr ([array_element x, array_element y, array_element z], g')"
      and "x \<in> set abstract" "y \<in> set abstract" "z \<in> set abstract"
      using choice_size_3 [OF assms abstract_ne, of rng1] by blast
    then show ?thesis
      using that [of x y z g'] by (simp add: array_element_abstract)
  qed
  define fragment where "fragment = array_element w @ [32] @ a @ [32] @ b @ [32] @ c"
  have run: "generate_fragment L e text = Inr fragment"
  proof (cases "str_split text = []")
    case True
    with first have "array_element w = str ''echo''" and "rng1 = rng"
      by simp_all
    then show ?thesis
      using True rest
      by (simp add: generate_fragment_def Let_def rng_def [symmetric] sp fragment_def)
  next
    case False
    with first have "choice L (str_split text) rng = Inr (array_element w, rng1)"
      by simp
    then show ?thesis
      using False rest
      by (simp add: generate_fragment_def Let_def rng_def [symmetric] sp fragment_def)
  qed
  have a_ok: "a \<noteq> [] \<and> (\<forall>x\<in>set a. \<not> isspace x)"
    using abc(1) by (rule abstract_words)
  have b_ok: "b \<noteq> [] \<and> (\<forall>x\<in>set b. \<not> isspace x)"
    using abc(2) by (rule abstract_words)
  have c_ok: "c \<noteq> [] \<and> (\<forall>x\<in>set c. \<not> isspace x)"
    using abc(3) by (rule abstract_words)
  have tokens: "space_separated_tokens fragment = [array_element w, a, b, c]"
    unfolding fragment_def using aw_ok a_ok b_ok c_ok by (intro fragment_space_tokens) simp_all
  have words: "array_element w = w \<and> str_split fragment = [w, a, b, c]" if "last w \<noteq> 0"
  proof -
    have keep: "array_element w = w"
      using w_ok that by (intro array_element_keeps) simp_all
    have "str_split (w @ [32] @ a @ [32] @ b @ [32] @ c) = [w, a, b, c]"
      using w_ok a_ok b_ok c_ok by (intro fragment_whitespace_tokens) simp_all
    then show ?thesis
      by (simp add: fragment_def keep)
  qed
  have ne: "fragment \<noteq> []"
    by (simp add: fragment_def)
  have eight: "length abstract = 8"
    by (simp add: abstract_def)
  have shape: "fragment = array_element w @ str '' '' @ a @ str '' '' @ b @ str '' '' @ c"
    by (simp add: fragment_def sp)
  show ?thesis
    using run shape ne w abc eight tokens words by blast
qed

lemma test_lib_integers_in_range: "integers_in_range (test_lib u z)"
  by (simp add: integers_in_range_def test_lib_def)

lemma fragment_structure_example:
  "integers_in_range (test_lib 0 0)
   \<and> generate_fragment (test_lib 0 0) test_env (str ''the quiet lake'')
       = Inr (str ''the flux veil echo'')
   \<and> str_split (str ''the quiet lake'') = [str ''the'', str ''quiet'', str ''lake'']
   \<and> space_separated_tokens (str ''the flux veil echo'')
       = [str ''the'', str ''flux'', str ''veil'', str ''echo'']"
proof -
  have h: "integers_in_range (test_lib 0 0)"
    by (rule test_lib_integers_in_range)
  have e1: "generate_fragment (test_lib 0 0) test_env (str ''the quiet lake'')
              = Inr (str ''the flux veil echo'')"
    by (simp add: fragment_eval)
  have e2: "str_split (str ''the quiet lake'') = [str ''the'', str ''quiet'', str ''lake'']"
    by (simp add: str_split_def str_def isspace_def)
  have e3: "space_separated_tokens (str ''the flux veil echo'')
              = [str ''the'', str ''flux'', str ''veil'', str ''echo'']"
    by (simp add: space_separated_tokens_def str_def)
  show ?thesis
    using fragment_structure [OF h, of test_env "str ''the quiet lake''"] h e1 e2 e3 by blast
qed

text \<open>
  C8.  The claim fails on the code for a word that ends with a NUL character.  For the
  input of the single character NUL, \<open>text.split()\<close> is the one word NUL; \<open>rng.choice\<close>
  returns it from the array as the empty string; the fragment begins with a space.  Its
  first token is empty, which is neither a word of the input nor \<open>echo\<close>, and it has three
  whitespace-separated tokens, not four.
\<close>

theorem fragment_of_nul_word:
  "str_split [0] = [[0]]
   \<and> generate_fragment (test_lib 0 0) test_env [0] = Inr (str '' echo rift pulse'')
   \<and> space_separated_tokens (str '' echo rift pulse'')
       = [[], str ''echo'', str ''rift'', str ''pulse'']
   \<and> str_split (str '' echo rift pulse'') = [str ''echo'', str ''rift'', str ''pulse'']"
  by (simp add: fragment_eval space_separated_tokens_def)

section \<open>Rounding to binary64 and binary32\<close>

lemma binary_round_eval:
  assumes "2 powr real_of_int k \<le> \<bar>x\<bar>" and "\<bar>x\<bar> < 2 powr (real_of_int k + 1)"
  shows "binary_round p x =
           real_of_int (py_round (x / 2 powr real_of_int (k - int p + 1)))
             * 2 powr real_of_int (k - int p + 1)"
proof -
  have "0 < (2 :: real) powr real_of_int k"
    by simp
  then have pos: "0 < \<bar>x\<bar>"
    using assms(1) by linarith
  then have nz: "x \<noteq> 0"
    by auto
  have "\<lfloor>log 2 \<bar>x\<bar>\<rfloor> = k"
    using floor_log_eq_powr_iff [of "\<bar>x\<bar>" 2 k] pos assms by simp
  then show ?thesis
    using nz by (simp add: binary_round_def Let_def)
qed

text \<open>
  The number of samples for duration 0.3 and sample rate 10.  The binary64 number nearest
  to 0.3 is \<open>5404319552844595 / 2 ^ 54\<close>, a little less than 0.3.  Its exact product with
  10 is a little less than 3 and would truncate to 2; the binary64 product is 3, and the
  buffer has 3 samples.
\<close>

lemma binary64_of_10: "binary_round 53 10 = 10"
  using binary_round_eval [of 3 10 53] by (simp add: py_round_def powr_neg_numeral)

lemma binary64_product_example: "binary_round 53 (10 * (5404319552844595 / 2 ^ 54)) = 3"
  using binary_round_eval [of 1 "10 * (5404319552844595 / 2 ^ 54)" 53]
  by (simp add: py_round_def powr_neg_numeral)

lemma sample_count_example:
  "sample_count (ieee_lib u z) (5404319552844595 / 2 ^ 54) 10 = 3
   \<and> py_int (real_of_int 10 * (5404319552844595 / 2 ^ 54)) = 2"
proof -
  have "sample_count (ieee_lib u z) (5404319552844595 / 2 ^ 54) 10
          = py_int (binary_round 53 (binary_round 53 10 * (5404319552844595 / 2 ^ 54)))"
    by (simp add: sample_count_def float64_times_def float64_of_int_def ieee_lib_def)
  also have "\<dots> = 3"
    by (simp only: binary64_of_10 binary64_product_example) (simp add: py_int_def)
  finally show ?thesis
    by (simp add: py_int_def)
qed

section \<open>Conversion to 16-bit PCM and the raw files\<close>

lemma float32_value_quarter: "float32_value 0x3E800000 = Fin (1 / 4)"
  by (simp add: float32_value_def Let_def bit_simps)

lemma py_int_bounds:
  assumes "- 32767 \<le> y" and "y \<le> 32767"
  shows "- 32767 \<le> py_int y \<and> py_int y \<le> 32767"
proof (cases "0 \<le> y")
  case True
  have "\<lfloor>y\<rfloor> \<le> 32767"
    using assms(2) by (simp add: floor_le_iff)
  moreover have "0 \<le> \<lfloor>y\<rfloor>"
    using True by simp
  ultimately show ?thesis
    using True by (simp add: py_int_def)
next
  case False
  have "- 32767 \<le> \<lceil>y\<rceil>"
    using assms(1) by (simp add: le_ceiling_iff)
  moreover have "\<lceil>y\<rceil> \<le> 0"
    using False by (simp add: ceiling_le_iff)
  ultimately show ?thesis
    using False by (simp add: py_int_def)
qed

lemma sint_int16:
  assumes "- 32767 \<le> k" and "k \<le> 32767"
  shows "sint (word_of_int k :: 16 word) = k"
proof -
  have "sint (word_of_int k :: 16 word) = signed_take_bit 15 k"
    by (simp add: sint_sbintrunc')
  also have "\<dots> = k"
    using assms by (intro signed_take_bit_int_eq_self) simp_all
  finally show ?thesis .
qed

text \<open>
  C9, amended.  Every decoded sample that is not NaN is first clamped to \<open>[-1, 1]\<close>
  (an infinity goes to the bound of its sign), then multiplied by 32767 in binary32, and
  the binary32 product is converted to a 16-bit integer by dropping its fraction, that is
  truncated toward zero; the result is the signed value of the 16-bit word.  The rounding
  of the product to binary32 is monotone and exact at 32767 and -32767, so the result lies
  between -32767 and 32767.  The product is not rounded to the nearest integer: 0.25
  gives 8191, and 8191.75, a binary32 number, rounds to 8192.
\<close>

theorem int16_conversion_truncates:
  assumes "float32_value w \<noteq> NaN"
    and "mono (round_float32 L)"
    and "round_float32 L 32767 = 32767" and "round_float32 L (- 32767) = - 32767"
  shows "\<exists>c. clip (float32_value w) (- 1) 1 = Fin c \<and> - 1 \<le> c \<and> c \<le> 1
           \<and> (\<forall>x. float32_value w = Fin x \<longrightarrow> c = min (max x (- 1)) 1)
           \<and> sint (to_int16 L w) = py_int (round_float32 L (c * 32767))
           \<and> - 32767 \<le> sint (to_int16 L w) \<and> sint (to_int16 L w) \<le> 32767"
proof -
  obtain c where c: "clip (float32_value w) (- 1) 1 = Fin c" and lo: "- 1 \<le> c" and hi: "c \<le> 1"
    and fin: "\<forall>x. float32_value w = Fin x \<longrightarrow> c = min (max x (- 1)) 1"
    using assms(1) by (cases "float32_value w") (auto simp: clip_def)
  define y where "y = round_float32 L (c * 32767)"
  have "- 32767 \<le> c * 32767" and "c * 32767 \<le> 32767"
    using lo hi by simp_all
  then have "round_float32 L (- 32767) \<le> y" and "y \<le> round_float32 L 32767"
    unfolding y_def using assms(2) by (auto simp: mono_def)
  then have yr: "- 32767 \<le> y" "y \<le> 32767"
    using assms(3,4) by simp_all
  have "to_int16 L w = word_of_int (py_int y)"
    by (simp add: to_int16_def c times_def astype_int16_def y_def)
  then have res: "sint (to_int16 L w) = py_int y"
    using py_int_bounds [OF yr] by (simp add: sint_int16)
  have "- 32767 \<le> sint (to_int16 L w) \<and> sint (to_int16 L w) \<le> 32767"
    using py_int_bounds [OF yr] res by simp
  then show ?thesis
    using c lo hi fin res unfolding y_def by blast
qed

theorem int16_conversion_truncates_witness:
  "float32_value 0x3E800000 \<noteq> NaN
   \<and> mono (round_float32 (test_lib 0 0))
   \<and> round_float32 (test_lib 0 0) 32767 = 32767
   \<and> round_float32 (test_lib 0 0) (- 32767) = - 32767
   \<and> clip (float32_value 0x3E800000) (- 1) 1 = Fin (1 / 4)
   \<and> sint (to_int16 (test_lib 0 0) 0x3E800000) = 8191
   \<and> py_int (round_float32 (test_lib 0 0) (1 / 4 * 32767)) = 8191"
proof -
  have v: "float32_value 0x3E800000 = Fin (1 / 4)"
    by (rule float32_value_quarter)
  have h1: "float32_value 0x3E800000 \<noteq> NaN"
    by (simp add: v)
  have h2: "mono (round_float32 (test_lib 0 0))"
    by (simp add: test_lib_def mono_def)
  have h3: "round_float32 (test_lib 0 0) 32767 = 32767"
    by (simp add: test_lib_def)
  have h4: "round_float32 (test_lib 0 0) (- 32767) = - 32767"
    by (simp add: test_lib_def)
  have e1: "clip (float32_value 0x3E800000) (- 1) 1 = Fin (1 / 4)"
    by (simp add: v clip_def)
  have e2: "py_int (round_float32 (test_lib 0 0) (1 / 4 * 32767)) = 8191"
    by (simp add: py_int_def test_lib_def)
  have "to_int16 (test_lib 0 0) 0x3E800000 = 8191"
    by (simp add: to_int16_def e1 times_def astype_int16_def py_int_def test_lib_def)
  then have e3: "sint (to_int16 (test_lib 0 0) 0x3E800000) = 8191"
    by simp
  show ?thesis
    using int16_conversion_truncates [OF h1 h2 h3 h4] h1 h2 h3 h4 e1 e2 e3
    by - (intro conjI, assumption+)
qed

theorem int16_conversion_rounds_counterexample:
  "float32_value 0x3E800000 = Fin (1 / 4)
   \<and> to_int16 (test_lib 0 0) 0x3E800000 = 8191
   \<and> py_round (1 / 4 * 32767) = 8192"
  by (simp add: float32_value_quarter to_int16_def clip_def times_def astype_int16_def py_int_def
      py_round_def test_lib_def)

text \<open>
  The sample with the bits \<open>3F000100\<close> is \<open>8388864 / 2 ^ 24\<close>, a little more than 0.5.
  Its exact product with 32767 is a little less than 16384 and would truncate to 16383;
  the binary32 product is 16384, and the conversion gives 16384.  For the sample 0.25
  the product 8191.75 is a binary32 number, and the conversion gives 8191.
\<close>

lemma float32_value_example: "float32_value 0x3F000100 = Fin (8388864 / 2 ^ 24)"
  by (simp add: float32_value_def Let_def bit_simps)

lemma binary32_product_example: "binary_round 24 (8388864 / 2 ^ 24 * 32767) = 16384"
  using binary_round_eval [of 13 "8388864 / 2 ^ 24 * 32767" 24]
  by (simp add: py_round_def powr_neg_numeral)

lemma binary32_product_quarter: "binary_round 24 (1 / 4 * 32767) = 32767 / 4"
  using binary_round_eval [of 12 "1 / 4 * 32767" 24]
  by (simp add: py_round_def powr_neg_numeral)

lemma to_int16_example:
  "to_int16 (ieee_lib u z) 0x3F000100 = 16384
   \<and> py_int (8388864 / 2 ^ 24 * 32767) = 16383
   \<and> to_int16 (ieee_lib u z) 0x3E800000 = 8191"
proof -
  have "clip (Fin (8388864 / 2 ^ 24)) (- 1) 1 = Fin (8388864 / 2 ^ 24)"
    by (simp add: clip_def)
  then have "to_int16 (ieee_lib u z) 0x3F000100
               = word_of_int (py_int (binary_round 24 (8388864 / 2 ^ 24 * 32767)))"
    by (simp add: to_int16_def float32_value_example times_def astype_int16_def ieee_lib_def)
  then have 1: "to_int16 (ieee_lib u z) 0x3F000100 = 16384"
    by (simp only: binary32_product_example) (simp add: py_int_def)
  have "clip (Fin (1 / 4)) (- 1) 1 = Fin (1 / 4)"
    by (simp add: clip_def)
  then have "to_int16 (ieee_lib u z) 0x3E800000
               = word_of_int (py_int (binary_round 24 (1 / 4 * 32767)))"
    by (simp add: to_int16_def float32_value_quarter times_def astype_int16_def ieee_lib_def)
  then have 2: "to_int16 (ieee_lib u z) 0x3E800000 = 8191"
    by (simp only: binary32_product_quarter) (simp add: py_int_def)
  have 3: "py_int (8388864 / 2 ^ 24 * 32767) = 16383"
    by (simp add: py_int_def)
  show ?thesis
    using 1 2 3 by simp
qed

text \<open>The whole conversion on a file of one sample, 0.25.\<close>

lemma convert_to_wav_example:
  "returned (convert_to_wav (test_lib 0 0) [str ''a.raw'' \<mapsto> [0, 0, 0x80, 0x3E]] (str ''a.raw'') None)
     = Some (str ''a.wav'')
   \<and> files_after (convert_to_wav (test_lib 0 0) [str ''a.raw'' \<mapsto> [0, 0, 0x80, 0x3E]] (str ''a.raw'') None)
       (str ''a.wav'') = Some [0xFF, 0x1F]
   \<and> printed (convert_to_wav (test_lib 0 0) [str ''a.raw'' \<mapsto> [0, 0, 0x80, 0x3E]] (str ''a.raw'') None)
     = [Converted (str ''a.raw'') (str ''a.wav''), Duration (1 / 44100), Samples 1]"
  by (simp add: convert_to_wav_def frombuffer_def float32_of_bytes_def to_int16_def
      float32_value_quarter clip_def times_def astype_int16_def py_int_def int16_bytes_def
      test_lib_def str_def Let_def)

text \<open>
  C4, amended.  For a byte sequence whose length is not a multiple of 4, decoding fails
  with ValueError, which \<open>convert_to_wav\<close> reports as its only output; \<open>info\<close> makes no
  such check: it reports the size, the number of whole samples \<open>len(data) // 4\<close> and the
  duration of that many samples at 44100 Hz, and no error.
\<close>

theorem invalid_length_decode_fails_info_floors:
  assumes "length bs mod 4 \<noteq> 0" and "fs raw_file = Some bs"
  shows "frombuffer bs = Inl ValueError
         \<and> printed (convert_to_wav L fs raw_file wav_file) = [ErrorConverting ValueError]
         \<and> info fs raw_file =
             [File raw_file, Size (length bs), Samples (length bs div 4),
              Duration (real (length bs div 4) / 44100), Format, SampleRate, Channels]"
  using assms by (simp add: frombuffer_def convert_to_wav_def info_def Let_def)

theorem invalid_length_decode_fails_info_floors_witness:
  "length [0, 0, 0, 0, 0 :: byte] mod 4 \<noteq> 0
   \<and> [str ''a.raw'' \<mapsto> [0, 0, 0, 0, 0 :: byte]] (str ''a.raw'') = Some [0, 0, 0, 0, 0]
   \<and> frombuffer [0, 0, 0, 0, 0] = Inl ValueError
   \<and> info [str ''a.raw'' \<mapsto> [0, 0, 0, 0, 0]] (str ''a.raw'') =
        [File (str ''a.raw''), Size 5, Samples 1, Duration (1 / 44100), Format, SampleRate, Channels]"
proof -
  have h1: "length [0, 0, 0, 0, 0 :: byte] mod 4 \<noteq> 0"
    by simp
  have h2: "[str ''a.raw'' \<mapsto> [0, 0, 0, 0, 0 :: byte]] (str ''a.raw'') = Some [0, 0, 0, 0, 0]"
    by simp
  show ?thesis
    using invalid_length_decode_fails_info_floors
        [where fs = "[str ''a.raw'' \<mapsto> [0, 0, 0, 0, 0]]" and raw_file = "str ''a.raw''"
           and bs = "[0, 0, 0, 0, 0]" and L = "test_lib 0 0" and wav_file = None, OF h1 h2] h1 h2
    by simp
qed

theorem info_accepts_invalid_length_counterexample:
  "length [0, 0, 0, 0, 0 :: byte] mod 4 \<noteq> 0
   \<and> info [str ''a.raw'' \<mapsto> [0, 0, 0, 0, 0]] (str ''a.raw'') =
        [File (str ''a.raw''), Size 5, Samples 1, Duration (1 / 44100), Format, SampleRate, Channels]"
  by (simp add: info_def)

text \<open>
  C10.  When the raw file exists and its length is not a multiple of 4,
  \<open>convert_to_wav\<close> returns None, prints the decoding error, and leaves the files as they
  were: the failure comes before the output file is opened, so no WAV file is created.
\<close>

theorem convert_to_wav_decode_error:
  assumes "fs raw_file = Some bs" and "length bs mod 4 \<noteq> 0"
  shows "convert_to_wav L fs raw_file wav_file =
           \<lparr>returned = None, files_after = fs, printed = [ErrorConverting ValueError]\<rparr>"
  using assms by (simp add: convert_to_wav_def frombuffer_def)

theorem convert_to_wav_decode_error_witness:
  "[str ''a.raw'' \<mapsto> [0, 0, 0, 0, 0 :: byte]] (str ''a.raw'') = Some [0, 0, 0, 0, 0]
   \<and> length [0, 0, 0, 0, 0 :: byte] mod 4 \<noteq> 0
   \<and> convert_to_wav (test_lib 0 0) [str ''a.raw'' \<mapsto> [0, 0, 0, 0, 0]] (str ''a.raw'') None =
        \<lparr>returned = None, files_after = [str ''a.raw'' \<mapsto> [0, 0, 0, 0, 0]],
         printed = [ErrorConverting ValueError]\<rparr>"
proof -
  have h1: "[str ''a.raw'' \<mapsto> [0, 0, 0, 0, 0 :: byte]] (str ''a.raw'') = Some [0, 0, 0, 0, 0]"
    by simp
  have h2: "length [0, 0, 0, 0, 0 :: byte] mod 4 \<noteq> 0"
    by simp
  show ?thesis
    using convert_to_wav_decode_error
        [where fs = "[str ''a.raw'' \<mapsto> [0, 0, 0, 0, 0]]" and raw_file = "str ''a.raw''"
           and bs = "[0, 0, 0, 0, 0]" and L = "test_lib 0 0" and wav_file = None, OF h1 h2] h1 h2
    by simp
qed

end
